theory Spec2Isabelle
  imports Main
begin

section \<open>Python values\<close>

text \<open>
  A Python \<open>str\<close> is a sequence of Unicode code points, and \<open>len\<close> and slicing count code
  points. The embedding keeps that: a \<open>pystr\<close> is the list of the code points, so that
  \<open>password[:72]\<close> is \<open>take 72\<close> and \<open>len(password.encode('utf-8'))\<close> is the length of the
  UTF-8 encoding below. A \<open>str\<close> may hold a lone surrogate (a code point from 0xD800 to
  0xDFFF; a JSON body can carry one), and \<open>str.encode('utf-8')\<close> raises
  \<open>UnicodeEncodeError\<close> on it: \<open>encode_utf8\<close> is the encoding with that raise,
  \<open>utf8_bytes\<close> the bytes of a string that has none.

  An \<open>error\<close> is what a request can raise: an \<open>HTTPException\<close> with its status code, detail
  and headers, or one of the two exceptions no handler catches, the \<open>IntegrityError\<close> of
  the database and the \<open>UnicodeEncodeError\<close> of the encoder.
\<close>

type_synonym pystr = "nat list"

datatype error =
    HTTPException nat string "(string \<times> string) list"
  | IntegrityError
  | UnicodeEncodeError

definition str :: "string \<Rightarrow> pystr" where
  "str s = map of_char s"

definition encode_utf8_char :: "nat \<Rightarrow> nat list" where
  "encode_utf8_char c =
     (if c < 128 then [c]
      else if c < 2048 then [192 + c div 64, 128 + c mod 64]
      else if c < 65536 then [224 + c div 4096, 128 + (c div 64) mod 64, 128 + c mod 64]
      else [240 + c div 262144, 128 + (c div 4096) mod 64, 128 + (c div 64) mod 64,
            128 + c mod 64])"

definition utf8_bytes :: "pystr \<Rightarrow> nat list" where
  "utf8_bytes s = concat (map encode_utf8_char s)"

definition surrogate :: "nat \<Rightarrow> bool" where
  "surrogate c = (55296 \<le> c \<and> c \<le> 57343)"

definition encode_utf8 :: "pystr \<Rightarrow> error + nat list" where
  "encode_utf8 s =
     (if list_ex surrogate s then Inl UnicodeEncodeError else Inr (utf8_bytes s))"

text \<open>
  The body of a request is a JSON object read as a \<open>dict\<close>; \<open>data.get(key)\<close> is \<open>None\<close> for a
  key that is absent or null. The embedding covers string-valued fields. \<open>truthy\<close> is
  Python's truth test on such a value: \<open>not v\<close> holds for \<open>None\<close> and for the empty string.
\<close>

type_synonym body = "string \<Rightarrow> pystr option"

definition truthy :: "pystr option \<Rightarrow> pystr option" where
  "truthy v = (case v of None \<Rightarrow> None | Some [] \<Rightarrow> None | Some (c # cs) \<Rightarrow> Some (c # cs))"

section \<open>The libraries and the configuration\<close>

text \<open>
  Two libraries do the cryptography: passlib's \<open>pwd_context\<close> (scheme \<open>sha256_crypt\<close>) and
  jose's \<open>jwt\<close>. Neither is part of the repository, so the program is embedded over an
  environment that holds them as functions, together with the \<open>SECRET_KEY\<close> read from the
  process environment:
  \<^item> \<open>pwd_context_hash salt password\<close> is \<open>pwd_context.hash(password)\<close> with the salt the
    call draws;
  \<^item> \<open>pwd_context_verify password hash\<close> is \<open>pwd_context.verify(password, hash)\<close>;
  \<^item> \<open>jwt_encode claims key\<close> is \<open>jwt.encode(claims, key, algorithm="HS256")\<close>;
  \<^item> \<open>jwt_decode token key now\<close> is \<open>jwt.decode(token, key, algorithms=["HS256"])\<close> run
    when the clock reads \<open>now\<close> (seconds); every failure of it is a \<open>JWTError\<close> or one of
    its subclasses.

  The hasher is taken as a total test and a total hash: what passlib itself raises on an
  input it refuses (a stored hash of no scheme it knows, a password it cannot encode) is
  the library's and not part of the embedding.
\<close>

datatype jwt_error = JWTError | ExpiredSignatureError | JWTClaimsError

record claims =
  claim_sub :: "pystr option"
  claim_user_id :: "pystr option"
  claim_exp :: "int option"

record ('h, 't) env =
  pwd_context_hash :: "pystr \<Rightarrow> pystr \<Rightarrow> 'h"
  pwd_context_verify :: "pystr \<Rightarrow> 'h \<Rightarrow> bool"
  jwt_encode :: "claims \<Rightarrow> pystr \<Rightarrow> 't"
  jwt_decode :: "'t \<Rightarrow> pystr \<Rightarrow> int \<Rightarrow> jwt_error + claims"
  SECRET_KEY :: pystr

definition ACCESS_TOKEN_EXPIRE_MINUTES :: int where
  "ACCESS_TOKEN_EXPIRE_MINUTES = 30"

definition ADMIN_EMAIL :: pystr where
  "ADMIN_EMAIL = str ''admin@test.com''"

section \<open>models.py: the user table\<close>

record 'h user =
  user_id :: pystr
  name :: "pystr option"
  email :: pystr
  email_verified :: "int option"
  image :: "pystr option"
  password_hash :: "'h option"
  created_at :: int
  updated_at :: int

text \<open>
  \<open>set_password\<close> first takes \<open>len(password.encode('utf-8'))\<close>, so it raises where the
  encoder does and sets no hash then; otherwise it returns the user with the new hash.
  \<open>verify_password\<close> answers \<open>False\<close> for an unset hash before it calls the library.
\<close>

definition set_password ::
    "('h, 't) env \<Rightarrow> pystr \<Rightarrow> 'h user \<Rightarrow> pystr \<Rightarrow> error + 'h user" where
  "set_password E salt self password =
     (case encode_utf8 password of
        Inl e \<Rightarrow> Inl e
      | Inr encoded \<Rightarrow>
          (let password' = (if length encoded > 72 then take 72 password else password)
           in Inr (self\<lparr>password_hash := Some (pwd_context_hash E salt password')\<rparr>)))"

definition verify_password :: "('h, 't) env \<Rightarrow> 'h user \<Rightarrow> pystr \<Rightarrow> bool" where
  "verify_password E self password =
     (case password_hash self of
        None \<Rightarrow> False
      | Some h \<Rightarrow> pwd_context_verify E password h)"

text \<open>
  The table is the list of its rows in insertion order, which is the order
  \<open>scalars().first()\<close> reads them in. The schema declares \<open>id\<close> the primary key and
  \<open>email\<close> unique; \<open>table_ok\<close> is the two constraints, and an insert that would break one
  raises \<open>IntegrityError\<close>.
\<close>

type_synonym 'h store = "'h user list"

definition table_ok :: "'h store \<Rightarrow> bool" where
  "table_ok session = (distinct (map user_id session) \<and> distinct (map email session))"

definition session_insert :: "'h user \<Rightarrow> 'h store \<Rightarrow> error + 'h store" where
  "session_insert user session =
     (if user_id user \<in> set (map user_id session) \<or> email user \<in> set (map email session)
      then Inl IntegrityError
      else Inr (session @ [user]))"

definition session_update_password :: "'h user \<Rightarrow> 'h store \<Rightarrow> 'h store" where
  "session_update_password user session =
     map (\<lambda>u. if user_id u = user_id user then u\<lparr>password_hash := password_hash user\<rparr> else u)
       session"

definition session_delete :: "'h user \<Rightarrow> 'h store \<Rightarrow> 'h store" where
  "session_delete user session = filter (\<lambda>u. user_id u \<noteq> user_id user) session"

section \<open>auth.py\<close>

datatype 't response =
    TokenResponse 't string pystr pystr "pystr option"
  | Message string
  | MeResponse pystr pystr "pystr option" bool
  | UserResponse pystr pystr "pystr option"
  | UsersResponse "(pystr \<times> pystr \<times> pystr option) list"

definition credentials_exception :: error where
  "credentials_exception =
     HTTPException 401 ''Could not validate credentials'' [(''WWW-Authenticate'', ''Bearer'')]"

definition forbidden_exception :: error where
  "forbidden_exception = HTTPException 403 ''Only admin can manage users'' []"

definition get_user_by_email :: "pystr \<Rightarrow> 'h store \<Rightarrow> 'h user option" where
  "get_user_by_email em session = find (\<lambda>u. email u = em) session"

definition get_current_user_obj ::
    "('h, 't) env \<Rightarrow> int \<Rightarrow> 't \<Rightarrow> 'h store \<Rightarrow> error + 'h user" where
  "get_current_user_obj E now token session =
     (case jwt_decode E token (SECRET_KEY E) now of
        Inl _ \<Rightarrow> Inl credentials_exception
      | Inr payload \<Rightarrow>
          (case claim_sub payload of
             None \<Rightarrow> Inl credentials_exception
           | Some em \<Rightarrow>
               (case get_user_by_email em session of
                  None \<Rightarrow> Inl credentials_exception
                | Some user \<Rightarrow> Inr user)))"

text \<open>
  \<open>expires_delta\<close> is a \<open>timedelta\<close> in seconds; \<open>if expires_delta:\<close> is false for \<open>None\<close> and
  for the zero \<open>timedelta\<close>, and both get the fifteen minutes.
\<close>

definition create_access_token :: "('h, 't) env \<Rightarrow> int \<Rightarrow> claims \<Rightarrow> int option \<Rightarrow> 't" where
  "create_access_token E now data expires_delta =
     (let expire = (case expires_delta of
                      None \<Rightarrow> now + 15 * 60
                    | Some d \<Rightarrow> if d \<noteq> 0 then now + d else now + 15 * 60);
          to_encode = data\<lparr>claim_exp := Some expire\<rparr>
      in jwt_encode E to_encode (SECRET_KEY E))"

definition authenticate_user ::
    "('h, 't) env \<Rightarrow> pystr \<Rightarrow> pystr \<Rightarrow> 'h store \<Rightarrow> 'h user option" where
  "authenticate_user E em password session =
     (case get_user_by_email em session of
        None \<Rightarrow> None
      | Some user \<Rightarrow> if \<not> verify_password E user password then None else Some user)"

definition login_for_access_token ::
    "('h, 't) env \<Rightarrow> int \<Rightarrow> pystr \<Rightarrow> pystr \<Rightarrow> 'h store \<Rightarrow> error + 't response" where
  "login_for_access_token E now username password session =
     (case authenticate_user E username password session of
        None \<Rightarrow>
          Inl (HTTPException 401 ''Incorrect email or password''
                 [(''WWW-Authenticate'', ''Bearer'')])
      | Some user \<Rightarrow>
          (let access_token_expires = ACCESS_TOKEN_EXPIRE_MINUTES * 60;
               access_token =
                 create_access_token E now
                   \<lparr>claim_sub = Some (email user), claim_user_id = Some (user_id user),
                    claim_exp = None\<rparr>
                   (Some access_token_expires)
           in Inr (TokenResponse access_token ''bearer'' (user_id user) (email user)
                     (name user))))"

definition logout :: "'t response" where
  "logout = Message ''Successfully logged out''"

definition get_current_user ::
    "('h, 't) env \<Rightarrow> int \<Rightarrow> 't \<Rightarrow> 'h store \<Rightarrow> error + 't response" where
  "get_current_user E now token session =
     (case jwt_decode E token (SECRET_KEY E) now of
        Inl _ \<Rightarrow> Inl credentials_exception
      | Inr payload \<Rightarrow>
          (case claim_sub payload of
             None \<Rightarrow> Inl credentials_exception
           | Some em \<Rightarrow>
               (case get_user_by_email em session of
                  None \<Rightarrow> Inl credentials_exception
                | Some user \<Rightarrow>
                    Inr (MeResponse (user_id user) (email user) (name user)
                           (email_verified user \<noteq> None)))))"

text \<open>
  The endpoints below take \<open>current_user\<close>, the value of the dependency
  \<open>get_current_user_obj\<close>, as the source does, and return the table beside the response:
  a raise, also the one of \<open>set_password\<close>, leaves the table as it was, a commit returns
  the new one. \<open>salt\<close>, \<open>new_id\<close> and \<open>now_ms\<close> are what the call draws: the salt of the
  hash, the \<open>uuid4\<close> of the new row and the clock reading of its timestamps.
\<close>

definition change_password ::
    "('h, 't) env \<Rightarrow> pystr \<Rightarrow> body \<Rightarrow> 'h user \<Rightarrow> 'h store \<Rightarrow> (error + 't response) \<times> 'h store"
    where
  "change_password E salt data current_user session =
     (case (truthy (data ''current_password''), truthy (data ''new_password'')) of
        (Some current_password, Some new_password) \<Rightarrow>
          if \<not> verify_password E current_user current_password
          then (Inl (HTTPException 400 ''Current password is incorrect'' []), session)
          else (case set_password E salt current_user new_password of
                  Inl e \<Rightarrow> (Inl e, session)
                | Inr user \<Rightarrow>
                    (Inr (Message ''Password changed successfully''),
                     session_update_password user session))
      | _ \<Rightarrow>
          (Inl (HTTPException 400 ''current_password and new_password are required'' []),
           session))"

definition list_users :: "'h store \<Rightarrow> 'h user \<Rightarrow> error + 't response" where
  "list_users session current_user =
     (if email current_user \<noteq> ADMIN_EMAIL then Inl forbidden_exception
      else Inr (UsersResponse (map (\<lambda>u. (user_id u, email u, name u)) session)))"

definition create_user ::
    "('h, 't) env \<Rightarrow> pystr \<Rightarrow> pystr \<Rightarrow> int \<Rightarrow> body \<Rightarrow> 'h store \<Rightarrow> 'h user
       \<Rightarrow> (error + 't response) \<times> 'h store" where
  "create_user E salt new_id now_ms data session current_user =
     (if email current_user \<noteq> ADMIN_EMAIL then (Inl forbidden_exception, session)
      else
        (case (truthy (data ''email''), truthy (data ''password'')) of
           (Some em, Some password) \<Rightarrow>
             (case find (\<lambda>u. email u = em) session of
                Some existing \<Rightarrow>
                  (Inl (HTTPException 400 ''Email already exists'' []), session)
              | None \<Rightarrow>
                  (case set_password E salt
                          \<lparr>user_id = new_id, name = data ''name'', email = em,
                           email_verified = None, image = None, password_hash = None,
                           created_at = now_ms, updated_at = now_ms\<rparr>
                          password of
                     Inl e \<Rightarrow> (Inl e, session)
                   | Inr user \<Rightarrow>
                       (case session_insert user session of
                          Inl e \<Rightarrow> (Inl e, session)
                        | Inr session' \<Rightarrow>
                            (Inr (UserResponse (user_id user) (email user) (name user)),
                             session'))))
         | _ \<Rightarrow> (Inl (HTTPException 400 ''email and password are required'' []), session)))"

definition delete_user ::
    "pystr \<Rightarrow> 'h store \<Rightarrow> 'h user \<Rightarrow> (error + 't response) \<times> 'h store" where
  "delete_user uid session current_user =
     (if email current_user \<noteq> ADMIN_EMAIL then (Inl forbidden_exception, session)
      else
        (case find (\<lambda>u. user_id u = uid) session of
           None \<Rightarrow> (Inl (HTTPException 404 ''User not found'' []), session)
         | Some user \<Rightarrow>
             if email user = ADMIN_EMAIL
             then (Inl (HTTPException 400 ''Cannot delete admin user'' []), session)
             else (Inr (Message ''User deleted''), session_delete user session)))"

section \<open>Requests\<close>

text \<open>
  The router resolves the dependencies of an endpoint before it calls it: an endpoint that
  declares \<open>current_user\<close> runs after \<open>get_current_user_obj\<close> has returned a user, and the
  request ends with the 401 of the dependency otherwise. \<open>handle\<close> is one request against
  the table at clock reading \<open>now\<close>, and \<open>run\<close> a sequence of them.
\<close>

datatype 't request =
    Login pystr pystr
  | Logout
  | WhoAmI 't
  | ChangePassword 't body pystr
  | ListUsers 't
  | CreateUser 't body pystr pystr int
  | DeleteUser 't pystr

fun handle ::
    "('h, 't) env \<Rightarrow> int \<Rightarrow> 't request \<Rightarrow> 'h store \<Rightarrow> (error + 't response) \<times> 'h store"
    where
  "handle E now (Login username password) session =
     (login_for_access_token E now username password session, session)"
| "handle E now Logout session = (Inr logout, session)"
| "handle E now (WhoAmI token) session = (get_current_user E now token session, session)"
| "handle E now (ChangePassword token data salt) session =
     (case get_current_user_obj E now token session of
        Inl e \<Rightarrow> (Inl e, session)
      | Inr current_user \<Rightarrow> change_password E salt data current_user session)"
| "handle E now (ListUsers token) session =
     (case get_current_user_obj E now token session of
        Inl e \<Rightarrow> (Inl e, session)
      | Inr current_user \<Rightarrow> (list_users session current_user, session))"
| "handle E now (CreateUser token data salt new_id now_ms) session =
     (case get_current_user_obj E now token session of
        Inl e \<Rightarrow> (Inl e, session)
      | Inr current_user \<Rightarrow> create_user E salt new_id now_ms data session current_user)"
| "handle E now (DeleteUser token uid) session =
     (case get_current_user_obj E now token session of
        Inl e \<Rightarrow> (Inl e, session)
      | Inr current_user \<Rightarrow> delete_user uid session current_user)"

fun run :: "('h, 't) env \<Rightarrow> (int \<times> 't request) list \<Rightarrow> 'h store \<Rightarrow> 'h store" where
  "run E [] session = session"
| "run E ((now, req) # rest) session = run E rest (snd (handle E now req session))"

section \<open>What the libraries promise\<close>

text \<open>
  \<open>sha256_crypt\<close> hashes the whole password it is given, and verifying recomputes the hash
  with the salt stored in it. \<open>hasher_exact\<close> is that contract with collisions idealised
  away: a password verifies against a hash exactly when it is the password hashed.
  \<open>jwt_faithful\<close> is the contract of \<open>jwt.encode\<close> and \<open>jwt.decode\<close> under one key: the claims
  come back until the clock passes \<open>exp\<close>, and \<open>ExpiredSignatureError\<close> is raised after.
\<close>

definition hasher_exact :: "('h, 't) env \<Rightarrow> bool" where
  "hasher_exact E =
     (\<forall>salt p q. pwd_context_verify E q (pwd_context_hash E salt p) = (q = p))"

definition jwt_faithful :: "('h, 't) env \<Rightarrow> bool" where
  "jwt_faithful E =
     (\<forall>c k now. jwt_decode E (jwt_encode E c k) k now =
        (case claim_exp c of
           None \<Rightarrow> Inr c
         | Some e \<Rightarrow> if e < now then Inl ExpiredSignatureError else Inr c))"

text \<open>
  A symbolic instance of the two libraries, for running the program on concrete requests:
  a hash is the pair of the salt and the password hashed, a token is either the claims
  signed under a key or a string that does not parse.
\<close>

datatype crypt = Crypt pystr pystr

datatype token = Signed claims pystr | Malformed pystr

fun crypt_verify :: "pystr \<Rightarrow> crypt \<Rightarrow> bool" where
  "crypt_verify password (Crypt salt hashed) = (password = hashed)"

fun token_decode :: "token \<Rightarrow> pystr \<Rightarrow> int \<Rightarrow> jwt_error + claims" where
  "token_decode (Signed c k) key now =
     (if k \<noteq> key then Inl JWTError
      else (case claim_exp c of
              None \<Rightarrow> Inr c
            | Some e \<Rightarrow> if e < now then Inl ExpiredSignatureError else Inr c))"
| "token_decode (Malformed s) key now = Inl JWTError"

definition symbolic :: "(crypt, token) env" where
  "symbolic =
     \<lparr>pwd_context_hash = Crypt, pwd_context_verify = crypt_verify, jwt_encode = Signed,
      jwt_decode = token_decode, SECRET_KEY = str ''your-secret-key-here-should-be-long-and-random''\<rparr>"

section \<open>Example data\<close>

text \<open>
  A table of two rows, the administrator created by the bootstrap of \<open>main.py\<close> and one
  ordinary user, with request bodies and tokens to run the endpoints on.
\<close>

definition admin_user :: "crypt user" where
  "admin_user =
     \<lparr>user_id = str ''id-admin'', name = Some (str ''Admin User''), email = ADMIN_EMAIL,
      email_verified = Some 0, image = None,
      password_hash = Some (Crypt (str ''salt-a'') (str ''123456'')),
      created_at = 0, updated_at = 0\<rparr>"

definition bob :: "crypt user" where
  "bob =
     \<lparr>user_id = str ''id-bob'', name = None, email = str ''bob@test.com'',
      email_verified = None, image = None,
      password_hash = Some (Crypt (str ''salt-b'') (str ''hunter2'')),
      created_at = 1, updated_at = 1\<rparr>"

definition two_users :: "crypt store" where
  "two_users = [admin_user, bob]"

definition no_new_password :: body where
  "no_new_password = [''current_password'' \<mapsto> str ''wrong'']"

definition taken_email_no_password :: body where
  "taken_email_no_password = [''email'' \<mapsto> str ''bob@test.com'']"

definition bob_token :: "int \<Rightarrow> pystr \<Rightarrow> token" where
  "bob_token e key =
     Signed \<lparr>claim_sub = Some (str ''bob@test.com''), claim_user_id = Some (str ''id-bob''),
             claim_exp = Some e\<rparr> key"

definition carol_token :: token where
  "carol_token =
     Signed \<lparr>claim_sub = Some (str ''carol@test.com''), claim_user_id = Some (str ''id-carol''),
             claim_exp = Some 2000\<rparr> (SECRET_KEY symbolic)"

definition dave :: "crypt user" where
  "dave =
     \<lparr>user_id = str ''id-dave'', name = Some (str ''Dave''), email = str ''dave@test.com'',
      email_verified = None, image = None, password_hash = None,
      created_at = 2, updated_at = 2\<rparr>"

definition three_users :: "crypt store" where
  "three_users = [admin_user, bob, dave]"




definition taken_email :: body where
  "taken_email = [''email'' \<mapsto> str ''bob@test.com'', ''password'' \<mapsto> str ''other'']"

definition admin_token :: token where
  "admin_token =
     Signed \<lparr>claim_sub = Some ADMIN_EMAIL, claim_user_id = Some (str ''id-admin''),
             claim_exp = Some 2800\<rparr> (SECRET_KEY symbolic)"

definition admin_requests :: "(int \<times> token request) list" where
  "admin_requests =
     [(1000, DeleteUser admin_token (str ''id-admin'')),
      (1001, DeleteUser admin_token (str ''id-bob'')),
      (1002, Logout),
      (1003, DeleteUser admin_token (str ''id-admin''))]"

text \<open>
  The invariant of the administrator's row: the ids are distinct and the first row with
  the email \<open>admin@test.com\<close> exists and has the id \<open>aid\<close>.
\<close>

definition admin_kept :: "pystr \<Rightarrow> 'h store \<Rightarrow> bool" where
  "admin_kept aid session =
     (distinct (map user_id session)
      \<and> (case get_user_by_email ADMIN_EMAIL session of
            None \<Rightarrow> False
          | Some a \<Rightarrow> user_id a = aid))"

definition seventy_three_a :: pystr where
  "seventy_three_a = replicate 73 97"

definition long_ascii_b :: pystr where
  "long_ascii_b = replicate 72 97 @ [98]"

definition long_ascii_c :: pystr where
  "long_ascii_c = replicate 72 97 @ [99]"

definition accented_a :: pystr where
  "accented_a = replicate 36 233 @ [97]"

definition accented_b :: pystr where
  "accented_b = replicate 36 233 @ [98]"

section \<open>Facts used throughout\<close>

lemma hasher_exact_symbolic: "hasher_exact symbolic"
  by (simp add: hasher_exact_def symbolic_def)

lemma jwt_faithful_symbolic: "jwt_faithful symbolic"
  by (simp add: jwt_faithful_def symbolic_def)

lemma bob_not_admin: "email bob \<noteq> ADMIN_EMAIL"
  by (simp add: bob_def ADMIN_EMAIL_def str_def)

lemma truthy_None_iff: "(truthy v = None) = (v = None \<or> v = Some [])"
  by (simp add: truthy_def split: option.splits list.splits)

lemma truthy_Some_iff: "(truthy v = Some p) = (v = Some p \<and> p \<noteq> [])"
  by (auto simp add: truthy_def split: option.splits list.splits)

lemma admin_user_is_admin: "email admin_user = ADMIN_EMAIL"
  by (simp add: admin_user_def)

lemma find_unknown_id: "find (\<lambda>u. user_id u = str ''id-none'') two_users = None"
  by (simp add: two_users_def admin_user_def bob_def str_def)


section \<open>Authorization\<close>

text \<open>
  Claim C2. An actor whose email is not \<open>admin@test.com\<close> gets the 403 "Only admin can
  manage users" from each of \<open>list_users\<close>, \<open>create_user\<close> and \<open>delete_user\<close>, whatever the
  input, and the table is returned as it was. \<open>list_users\<close> takes the table and returns a
  response only, so it cannot change it.
\<close>

theorem non_admin_forbidden:
  assumes "email current_user \<noteq> ADMIN_EMAIL"
  shows "list_users session current_user = Inl (HTTPException 403 ''Only admin can manage users'' [])
       \<and> create_user E salt new_id now_ms data session current_user
           = (Inl (HTTPException 403 ''Only admin can manage users'' []), session)
       \<and> delete_user uid session current_user
           = (Inl (HTTPException 403 ''Only admin can manage users'' []), session)"
  using assms by (simp add: list_users_def create_user_def delete_user_def forbidden_exception_def)

theorem non_admin_forbidden_witness:
  "email bob \<noteq> ADMIN_EMAIL
   \<and> list_users two_users bob = (Inl (HTTPException 403 ''Only admin can manage users'' []) :: error + token response)
   \<and> create_user symbolic (str ''s'') (str ''id-new'') 5 (\<lambda>k. None) two_users bob
       = (Inl (HTTPException 403 ''Only admin can manage users'' []) :: error + token response, two_users)
   \<and> delete_user (str ''id-admin'') two_users bob
       = (Inl (HTTPException 403 ''Only admin can manage users'' []):: error + token response, two_users)"
  using non_admin_forbidden [OF bob_not_admin] bob_not_admin by simp

section \<open>Token validation\<close>

text \<open>
  Claim C6. Whatever makes \<open>jwt.decode\<close> raise (a signature that does not match, a token
  that does not parse, an expiry in the past), \<open>get_current_user_obj\<close> and the endpoint
  \<open>get_current_user\<close> raise the one \<open>credentials_exception\<close>, a 401 with the detail
  "Could not validate credentials"; they raise the same exception when the token decodes
  and no row has the email it carries; and they raise no other exception.
\<close>

theorem token_failure_single_error:
  "(jwt_decode E token (SECRET_KEY E) now = Inl e \<longrightarrow>
      get_current_user_obj E now token session = Inl credentials_exception
      \<and> get_current_user E now token session = Inl credentials_exception)
   \<and> (jwt_decode E token (SECRET_KEY E) now = Inr payload \<and> claim_sub payload = Some em
        \<and> get_user_by_email em session = None \<longrightarrow>
        get_current_user_obj E now token session = Inl credentials_exception
        \<and> get_current_user E now token session = Inl credentials_exception)
   \<and> (get_current_user_obj E now token session = Inl x \<longrightarrow> x = credentials_exception)
   \<and> (get_current_user E now token session = Inl x \<longrightarrow> x = credentials_exception)
   \<and> credentials_exception
        = HTTPException 401 ''Could not validate credentials'' [(''WWW-Authenticate'', ''Bearer'')]"
  by (auto simp add: get_current_user_obj_def get_current_user_def credentials_exception_def
        split: sum.splits option.splits)

theorem token_failure_single_error_witness:
  "jwt_decode symbolic (Malformed (str ''abc'')) (SECRET_KEY symbolic) 1000 = Inl JWTError
   \<and> get_current_user symbolic 1000 (Malformed (str ''abc'')) two_users = Inl credentials_exception
   \<and> jwt_decode symbolic (bob_token 2000 (str ''forged'')) (SECRET_KEY symbolic) 1000
       = Inl JWTError
   \<and> get_current_user symbolic 1000 (bob_token 2000 (str ''forged'')) two_users
       = Inl credentials_exception
   \<and> jwt_decode symbolic (bob_token 999 (SECRET_KEY symbolic)) (SECRET_KEY symbolic) 1000
       = Inl ExpiredSignatureError
   \<and> get_current_user symbolic 1000 (bob_token 999 (SECRET_KEY symbolic)) two_users
       = Inl credentials_exception
   \<and> get_user_by_email (str ''carol@test.com'') two_users = None
   \<and> get_current_user symbolic 1000 carol_token two_users = Inl credentials_exception
   \<and> get_current_user_obj symbolic 1000 carol_token two_users = Inl credentials_exception"
proof -
  have m: "jwt_decode symbolic (Malformed (str ''abc'')) (SECRET_KEY symbolic) 1000 = Inl JWTError"
    by (simp add: symbolic_def)
  have f: "jwt_decode symbolic (bob_token 2000 (str ''forged'')) (SECRET_KEY symbolic) 1000
       = Inl JWTError"
    by (simp add: symbolic_def bob_token_def str_def)
  have x: "jwt_decode symbolic (bob_token 999 (SECRET_KEY symbolic)) (SECRET_KEY symbolic) 1000
       = Inl ExpiredSignatureError"
    by (simp add: symbolic_def bob_token_def)
  have c: "jwt_decode symbolic carol_token (SECRET_KEY symbolic) 1000
       = Inr \<lparr>claim_sub = Some (str ''carol@test.com''), claim_user_id = Some (str ''id-carol''),
             claim_exp = Some 2000\<rparr>"
    by (simp add: symbolic_def carol_token_def)
  have n: "get_user_by_email (str ''carol@test.com'') two_users = None"
    by (simp add: get_user_by_email_def two_users_def admin_user_def bob_def ADMIN_EMAIL_def
          str_def)
  show ?thesis
    using m f x c n
      token_failure_single_error [where E = symbolic and now = 1000 and session = two_users
        and token = "Malformed (str ''abc'')" and e = JWTError]
      token_failure_single_error [where E = symbolic and now = 1000 and session = two_users
        and token = "bob_token 2000 (str ''forged'')" and e = JWTError]
      token_failure_single_error [where E = symbolic and now = 1000 and session = two_users
        and token = "bob_token 999 (SECRET_KEY symbolic)" and e = ExpiredSignatureError]
      token_failure_single_error [where E = symbolic and now = 1000 and session = two_users
        and token = carol_token and em = "str ''carol@test.com''"
        and payload = "\<lparr>claim_sub = Some (str ''carol@test.com''),
             claim_user_id = Some (str ''id-carol''), claim_exp = Some 2000\<rparr>"]
    by simp
qed

section \<open>Order of the checks\<close>

text \<open>
  Claim C10. In \<open>create_user\<close> and \<open>delete_user\<close> the test of the actor's email comes first:
  a non-admin actor gets the 403 for every body and every target id, also a body with no
  password, an email that is taken, or an id no row has. For the admin actor an id that
  no row has gets the 404. In \<open>change_password\<close> a body in which either field is absent or
  empty gets the 400 "current_password and new_password are required", whatever the
  current password is.
\<close>

theorem error_precedence:
  "(email current_user \<noteq> ADMIN_EMAIL \<longrightarrow>
      create_user E salt new_id now_ms data session current_user
        = (Inl (HTTPException 403 ''Only admin can manage users'' []), session)
      \<and> delete_user uid session current_user
        = (Inl (HTTPException 403 ''Only admin can manage users'' []), session))
   \<and> (email current_user = ADMIN_EMAIL \<and> find (\<lambda>u. user_id u = uid) session = None \<longrightarrow>
        delete_user uid session current_user
          = (Inl (HTTPException 404 ''User not found'' []), session))
   \<and> (data ''current_password'' = None \<or> data ''current_password'' = Some []
        \<or> data ''new_password'' = None \<or> data ''new_password'' = Some [] \<longrightarrow>
        change_password E salt data current_user session
          = (Inl (HTTPException 400 ''current_password and new_password are required'' []),
             session))"
proof (intro conjI impI)
  assume "email current_user \<noteq> ADMIN_EMAIL"
  then show "create_user E salt new_id now_ms data session current_user
        = (Inl (HTTPException 403 ''Only admin can manage users'' []), session)"
    by (simp add: create_user_def forbidden_exception_def)
next
  assume "email current_user \<noteq> ADMIN_EMAIL"
  then show "delete_user uid session current_user
        = (Inl (HTTPException 403 ''Only admin can manage users'' []), session)"
    by (simp add: delete_user_def forbidden_exception_def)
next
  assume "email current_user = ADMIN_EMAIL \<and> find (\<lambda>u. user_id u = uid) session = None"
  then show "delete_user uid session current_user
          = (Inl (HTTPException 404 ''User not found'' []), session)"
    by (simp add: delete_user_def)
next
  assume "data ''current_password'' = None \<or> data ''current_password'' = Some []
        \<or> data ''new_password'' = None \<or> data ''new_password'' = Some []"
  then have "truthy (data ''current_password'') = None \<or> truthy (data ''new_password'') = None"
    by (auto simp add: truthy_None_iff)
  then show "change_password E salt data current_user session
          = (Inl (HTTPException 400 ''current_password and new_password are required'' []),
             session)"
    by (auto simp add: change_password_def split: option.splits)
qed

theorem error_precedence_witness:
  "email bob \<noteq> ADMIN_EMAIL
   \<and> create_user symbolic (str ''s'') (str ''id-new'') 5 taken_email_no_password two_users bob
       = (Inl (HTTPException 403 ''Only admin can manage users'' []) :: error + token response,
          two_users)
   \<and> delete_user (str ''id-none'') two_users bob
       = (Inl (HTTPException 403 ''Only admin can manage users'' []) :: error + token response,
          two_users)
   \<and> email admin_user = ADMIN_EMAIL
   \<and> find (\<lambda>u. user_id u = str ''id-none'') two_users = None
   \<and> delete_user (str ''id-none'') two_users admin_user
       = (Inl (HTTPException 404 ''User not found'' []) :: error + token response, two_users)
   \<and> no_new_password ''new_password'' = None
   \<and> \<not> verify_password symbolic bob (str ''wrong'')
   \<and> change_password symbolic (str ''s'') no_new_password bob two_users
       = (Inl (HTTPException 400 ''current_password and new_password are required'' [])
            :: error + token response, two_users)"
proof -
  have missing: "no_new_password ''new_password'' = None"
    by (simp add: no_new_password_def)
  have wrong: "\<not> verify_password symbolic bob (str ''wrong'')"
    by (simp add: verify_password_def bob_def symbolic_def str_def)
  have a: "create_user symbolic (str ''s'') (str ''id-new'') 5 taken_email_no_password
             two_users bob
           = (Inl (HTTPException 403 ''Only admin can manage users'' [])
                :: error + token response, two_users)
         \<and> delete_user (str ''id-none'') two_users bob
           = (Inl (HTTPException 403 ''Only admin can manage users'' [])
                :: error + token response, two_users)"
    using error_precedence [where current_user = bob and E = symbolic and salt = "str ''s''"
        and new_id = "str ''id-new''" and now_ms = 5 and data = taken_email_no_password
        and session = two_users and uid = "str ''id-none''"] bob_not_admin
    by blast
  have b: "delete_user (str ''id-none'') two_users admin_user
       = (Inl (HTTPException 404 ''User not found'' []) :: error + token response, two_users)"
    using error_precedence [where current_user = admin_user and session = two_users
        and uid = "str ''id-none''"] admin_user_is_admin find_unknown_id
    by blast
  have c: "change_password symbolic (str ''s'') no_new_password bob two_users
       = (Inl (HTTPException 400 ''current_password and new_password are required'' [])
            :: error + token response, two_users)"
    using error_precedence [where current_user = bob and E = symbolic and salt = "str ''s''"
        and data = no_new_password and session = two_users] missing
    by blast
  show ?thesis
    using a b c missing wrong bob_not_admin admin_user_is_admin find_unknown_id by blast
qed

section \<open>Login\<close>

lemma verify_password_unset: "password_hash u = None \<Longrightarrow> \<not> verify_password E u p"
  by (simp add: verify_password_def)

lemma get_user_by_email_email: "get_user_by_email em session = Some u \<Longrightarrow> email u = em"
  by (auto simp add: get_user_by_email_def find_Some_iff)

lemma login_success:
  assumes "get_user_by_email username session = Some u" and "verify_password E u password"
  shows "login_for_access_token E now username password session
          = Inr (TokenResponse
                   (jwt_encode E
                      \<lparr>claim_sub = Some username, claim_user_id = Some (user_id u),
                       claim_exp = Some (now + 1800)\<rparr> (SECRET_KEY E))
                   ''bearer'' (user_id u) username (name u))"
  using assms get_user_by_email_email [OF assms(1)]
  by (simp add: login_for_access_token_def authenticate_user_def Let_def
        create_access_token_def ACCESS_TOKEN_EXPIRE_MINUTES_def)


lemma lookup_bob: "get_user_by_email (str ''bob@test.com'') three_users = Some bob"
  by (simp add: get_user_by_email_def three_users_def admin_user_def bob_def ADMIN_EMAIL_def
        str_def)




lemma bob_right_password: "verify_password symbolic bob (str ''hunter2'')"
  by (simp add: verify_password_def bob_def symbolic_def)


section \<open>Logout\<close>

lemma run_logouts: "run E (map (\<lambda>t. (t, Logout)) ts) session = session"
  by (induction ts) simp_all

text \<open>
  Claim C9. \<open>logout\<close> takes no token and no session: it returns the message
  "Successfully logged out" and the table is what it was. After any number of logout
  requests, at any clock readings, resolving any token gives what it gave before them;
  and under a faithful \<open>jwt\<close> library the token a login issued still resolves to the
  user who logged in at every clock reading up to its expiry.
\<close>

theorem logout_changes_nothing:
  "handle E now Logout session = (Inr (Message ''Successfully logged out''), session)
   \<and> run E (map (\<lambda>t. (t, Logout)) ts) session = session
   \<and> get_current_user_obj E t token (run E (map (\<lambda>t. (t, Logout)) ts) session)
       = get_current_user_obj E t token session
   \<and> get_current_user E t token (run E (map (\<lambda>t. (t, Logout)) ts) session)
       = get_current_user E t token session
   \<and> (jwt_faithful E
        \<and> login_for_access_token E now username password session
            = Inr (TokenResponse tok ty i e n)
        \<and> t \<le> now + 1800 \<longrightarrow>
        (\<exists>u. get_current_user_obj E t tok (run E (map (\<lambda>t. (t, Logout)) ts) session)
               = Inr u \<and> email u = username))"
proof (intro conjI impI)
  show "handle E now Logout session = (Inr (Message ''Successfully logged out''), session)"
    by (simp add: logout_def)
next
  assume a: "jwt_faithful E
        \<and> login_for_access_token E now username password session
            = Inr (TokenResponse tok ty i e n)
        \<and> t \<le> now + 1800"
  then obtain u where u: "get_user_by_email username session = Some u"
      and v: "verify_password E u password"
    by (auto simp add: login_for_access_token_def authenticate_user_def
          split: option.splits if_splits)
  from a login_success [OF u v, of now]
  have tok: "tok = jwt_encode E
                      \<lparr>claim_sub = Some username, claim_user_id = Some (user_id u),
                       claim_exp = Some (now + 1800)\<rparr> (SECRET_KEY E)"
    by auto
  from a have "jwt_decode E tok (SECRET_KEY E) t
      = Inr \<lparr>claim_sub = Some username, claim_user_id = Some (user_id u),
             claim_exp = Some (now + 1800)\<rparr>"
    by (simp add: tok jwt_faithful_def)
  with u have "get_current_user_obj E t tok session = Inr u"
    by (simp add: get_current_user_obj_def)
  with u show "\<exists>u. get_current_user_obj E t tok (run E (map (\<lambda>t. (t, Logout)) ts) session)
               = Inr u \<and> email u = username"
    by (auto simp add: run_logouts dest: get_user_by_email_email)
qed (simp_all add: run_logouts)

theorem logout_changes_nothing_witness:
  "jwt_faithful symbolic
   \<and> login_for_access_token symbolic 1000 (str ''bob@test.com'') (str ''hunter2'') three_users
       = Inr (TokenResponse (bob_token 2800 (SECRET_KEY symbolic)) ''bearer'' (str ''id-bob'')
                (str ''bob@test.com'') None)
   \<and> (2800::int) \<le> 1000 + 1800
   \<and> get_current_user_obj symbolic 2800 (bob_token 2800 (SECRET_KEY symbolic))
        (run symbolic (map (\<lambda>t. (t, Logout)) [1100, 1200, 1300]) three_users) = Inr bob
   \<and> handle symbolic 1100 Logout three_users
       = (Inr (Message ''Successfully logged out''), three_users)"
proof -
  have l: "login_for_access_token symbolic 1000 (str ''bob@test.com'') (str ''hunter2'')
             three_users
       = Inr (TokenResponse (bob_token 2800 (SECRET_KEY symbolic)) ''bearer'' (str ''id-bob'')
                (str ''bob@test.com'') None)"
    using login_success [OF lookup_bob bob_right_password, of 1000]
    by (simp add: bob_token_def bob_def symbolic_def)
  note w = logout_changes_nothing [where E = symbolic and now = 1000 and session = three_users
      and username = "str ''bob@test.com''" and password = "str ''hunter2''" and t = 2800
      and tok = "bob_token 2800 (SECRET_KEY symbolic)" and ty = "''bearer''"
      and i = "str ''id-bob''" and e = "str ''bob@test.com''" and n = None
      and ts = "[1100, 1200, 1300]"]
  from w l jwt_faithful_symbolic obtain u where
    u: "get_current_user_obj symbolic 2800 (bob_token 2800 (SECRET_KEY symbolic))
          (run symbolic (map (\<lambda>t. (t, Logout)) [1100, 1200, 1300]) three_users) = Inr u"
    by auto
  have "get_current_user_obj symbolic 2800 (bob_token 2800 (SECRET_KEY symbolic)) three_users
          = Inr bob"
    using lookup_bob by (simp add: get_current_user_obj_def bob_token_def symbolic_def)
  with w u have b: "get_current_user_obj symbolic 2800 (bob_token 2800 (SECRET_KEY symbolic))
        (run symbolic (map (\<lambda>t. (t, Logout)) [1100, 1200, 1300]) three_users) = Inr bob"
    by simp
  from logout_changes_nothing [where E = symbolic and now = 1100 and session = three_users]
  have h: "handle symbolic 1100 Logout three_users
       = (Inr (Message ''Successfully logged out''), three_users)"
    by blast
  show ?thesis using l b h jwt_faithful_symbolic by simp
qed

section \<open>Password change\<close>


lemma set_password_encodable:
  assumes "\<not> list_ex surrogate p"
  shows "set_password E salt u p
           = Inr (u\<lparr>password_hash :=
                    Some (pwd_context_hash E salt
                            (if 72 < length (utf8_bytes p) then take 72 p else p))\<rparr>)"
  using assms by (simp add: set_password_def encode_utf8_def Let_def)

lemma set_password_surrogate:
  assumes "list_ex surrogate p"
  shows "set_password E salt u p = Inl UnicodeEncodeError"
  using assms by (simp add: set_password_def encode_utf8_def)

lemma set_password_Inr_iff:
  "(set_password E salt u p = Inr u')
     = (\<not> list_ex surrogate p
        \<and> u' = u\<lparr>password_hash :=
                   Some (pwd_context_hash E salt
                           (if 72 < length (utf8_bytes p) then take 72 p else p))\<rparr>)"
  by (cases "list_ex surrogate p")
    (auto simp add: set_password_encodable set_password_surrogate)




section \<open>Creating a user whose email is taken\<close>

lemma login_iff_verify:
  assumes "get_user_by_email em session = Some u"
  shows "(\<exists>r. login_for_access_token E now em p session = Inr r) = verify_password E u p"
  using assms
  by (auto simp add: login_for_access_token_def authenticate_user_def Let_def)

text \<open>
  Claim C8, as the code has it. The administrator posts a body whose email some row
  already has. With a password in the body (and the email not empty) \<open>create_user\<close> raises
  the 400 "Email already exists"; with the password absent or empty it raises the 400
  "email and password are required", the test of the fields coming first. Either way the
  request fails with a 400, the table is what it was, so a login with that email gives
  what it gave before, and it succeeds exactly when the password verifies against the
  hash of the row that was there.
\<close>

theorem create_user_email_taken:
  assumes "email current_user = ADMIN_EMAIL"
    and "data ''email'' = Some em"
    and "get_user_by_email em session = Some existing"
  shows "(em \<noteq> [] \<and> data ''password'' = Some pw \<and> pw \<noteq> [] \<longrightarrow>
            create_user E salt new_id now_ms data session current_user
              = (Inl (HTTPException 400 ''Email already exists'' []), session))
       \<and> (data ''password'' = None \<or> data ''password'' = Some [] \<longrightarrow>
            create_user E salt new_id now_ms data session current_user
              = (Inl (HTTPException 400 ''email and password are required'' []), session))
       \<and> (\<exists>d. fst (create_user E salt new_id now_ms data session current_user)
              = Inl (HTTPException 400 d []))
       \<and> snd (create_user E salt new_id now_ms data session current_user) = session
       \<and> login_for_access_token E now em p
            (snd (create_user E salt new_id now_ms data session current_user))
           = login_for_access_token E now em p session
       \<and> ((\<exists>r. login_for_access_token E now em p
                  (snd (create_user E salt new_id now_ms data session current_user)) = Inr r)
            = verify_password E existing p)"
proof -
  have found: "find (\<lambda>u. email u = em) session = Some existing"
    using assms(3) by (simp add: get_user_by_email_def)
  have taken: "em \<noteq> [] \<and> data ''password'' = Some pw \<and> pw \<noteq> [] \<longrightarrow>
            create_user E salt new_id now_ms data session current_user
              = (Inl (HTTPException 400 ''Email already exists'' []), session)"
  proof
    assume a: "em \<noteq> [] \<and> data ''password'' = Some pw \<and> pw \<noteq> []"
    with assms(2) have "truthy (data ''email'') = Some em"
        and "truthy (data ''password'') = Some pw"
      by (simp_all add: truthy_Some_iff)
    with assms(1) found show "create_user E salt new_id now_ms data session current_user
              = (Inl (HTTPException 400 ''Email already exists'' []), session)"
      by (simp add: create_user_def)
  qed
  have missing: "data ''password'' = None \<or> data ''password'' = Some [] \<longrightarrow>
            create_user E salt new_id now_ms data session current_user
              = (Inl (HTTPException 400 ''email and password are required'' []), session)"
  proof
    assume "data ''password'' = None \<or> data ''password'' = Some []"
    then have "truthy (data ''password'') = None"
      by (simp add: truthy_None_iff)
    with assms(1) show "create_user E salt new_id now_ms data session current_user
              = (Inl (HTTPException 400 ''email and password are required'' []), session)"
      by (simp add: create_user_def split: option.splits)
  qed
  have either: "create_user E salt new_id now_ms data session current_user
                  = (Inl (HTTPException 400 ''Email already exists'' []), session)
              \<or> create_user E salt new_id now_ms data session current_user
                  = (Inl (HTTPException 400 ''email and password are required'' []), session)"
  proof (cases "truthy (data ''email'')")
    case None
    with assms(1) show ?thesis
      by (simp add: create_user_def)
  next
    case (Some e)
    with assms(2) have e: "e = em"
      by (simp add: truthy_Some_iff)
    show ?thesis
    proof (cases "truthy (data ''password'')")
      case None
      with assms(1) Some show ?thesis
        by (simp add: create_user_def)
    next
      case (Some q)
      with assms(1) \<open>truthy (data ''email'') = Some e\<close> e found show ?thesis
        by (simp add: create_user_def)
    qed
  qed
  then have unchanged: "snd (create_user E salt new_id now_ms data session current_user) = session"
    by auto
  from either have failed: "\<exists>d. fst (create_user E salt new_id now_ms data session current_user)
              = Inl (HTTPException 400 d [])"
    by auto
  show ?thesis
    using taken missing failed unchanged login_iff_verify [OF assms(3)]
    by simp
qed

lemma lookup_bob_two: "get_user_by_email (str ''bob@test.com'') two_users = Some bob"
  by (simp add: get_user_by_email_def two_users_def admin_user_def bob_def ADMIN_EMAIL_def
        str_def)

lemma bob_other_password: "\<not> verify_password symbolic bob (str ''other'')"
  by (simp add: verify_password_def bob_def symbolic_def str_def)

theorem create_user_email_taken_witness:
  "email admin_user = ADMIN_EMAIL
   \<and> taken_email ''email'' = Some (str ''bob@test.com'')
   \<and> taken_email ''password'' = Some (str ''other'')
   \<and> get_user_by_email (str ''bob@test.com'') two_users = Some bob
   \<and> create_user symbolic (str ''s'') (str ''id-new'') 5 taken_email two_users admin_user
       = (Inl (HTTPException 400 ''Email already exists'' []) :: error + token response,
          two_users)
   \<and> verify_password symbolic bob (str ''hunter2'')
   \<and> (\<exists>r. login_for_access_token symbolic 1000 (str ''bob@test.com'') (str ''hunter2'')
             (snd (create_user symbolic (str ''s'') (str ''id-new'') 5 taken_email two_users
                     admin_user :: (error + token response) \<times> crypt store))
           = Inr r)
   \<and> \<not> verify_password symbolic bob (str ''other'')
   \<and> \<not> (\<exists>r. login_for_access_token symbolic 1000 (str ''bob@test.com'') (str ''other'')
             (snd (create_user symbolic (str ''s'') (str ''id-new'') 5 taken_email two_users
                     admin_user :: (error + token response) \<times> crypt store))
           = Inr r)"
proof -
  have e: "taken_email ''email'' = Some (str ''bob@test.com'')"
    by (simp add: taken_email_def)
  have p: "taken_email ''password'' = Some (str ''other'')"
    by (simp add: taken_email_def)
  have ne: "str ''bob@test.com'' \<noteq> [] \<and> str ''other'' \<noteq> []"
    by (simp add: str_def)
  note t = create_user_email_taken [where current_user = admin_user and data = taken_email
      and em = "str ''bob@test.com''" and session = two_users and existing = bob
      and E = symbolic and salt = "str ''s''" and new_id = "str ''id-new''" and now_ms = 5
      and now = 1000 and pw = "str ''other''", OF admin_user_is_admin e lookup_bob_two]
  from t [where p = "str ''hunter2''"] p ne
  have c: "create_user symbolic (str ''s'') (str ''id-new'') 5 taken_email two_users admin_user
       = (Inl (HTTPException 400 ''Email already exists'' []) :: error + token response,
          two_users)"
    by blast
  from t [where p = "str ''hunter2''"] bob_right_password
  have r: "\<exists>r. login_for_access_token symbolic 1000 (str ''bob@test.com'') (str ''hunter2'')
             (snd (create_user symbolic (str ''s'') (str ''id-new'') 5 taken_email two_users
                     admin_user :: (error + token response) \<times> crypt store))
           = Inr r"
    by blast
  from t [where p = "str ''other''"] bob_other_password
  have w: "\<not> (\<exists>r. login_for_access_token symbolic 1000 (str ''bob@test.com'') (str ''other'')
             (snd (create_user symbolic (str ''s'') (str ''id-new'') 5 taken_email two_users
                     admin_user :: (error + token response) \<times> crypt store))
           = Inr r)"
    by blast
  show ?thesis
    using e p c r w admin_user_is_admin lookup_bob_two bob_right_password bob_other_password
    by blast
qed

text \<open>
  On the two-row table, the administrator posting the email of the ordinary user with no
  password gets the 400 of the required fields: that test comes before the lookup of the
  email.
\<close>

theorem create_user_email_taken_counterexample:
  "email admin_user = ADMIN_EMAIL
   \<and> taken_email_no_password ''email'' = Some (str ''bob@test.com'')
   \<and> get_user_by_email (str ''bob@test.com'') two_users = Some bob
   \<and> create_user symbolic (str ''s'') (str ''id-new'') 5 taken_email_no_password two_users
        admin_user
       = (Inl (HTTPException 400 ''email and password are required'' [])
            :: error + token response, two_users)"
  using admin_user_is_admin lookup_bob_two
  by (simp add: create_user_def taken_email_no_password_def truthy_def str_def)

section \<open>The administrator's row\<close>

lemma find_filter_keeps:
  "find P xs = Some a \<Longrightarrow> Q a \<Longrightarrow> find P (filter Q xs) = Some a"
  by (induction xs) (auto split: if_splits)

lemma find_append_keeps: "find P xs = Some a \<Longrightarrow> find P (xs @ ys) = Some a"
  by (induction xs) (auto split: if_splits)

lemma find_map_keeps:
  assumes "\<And>x. P (f x) = P x"
  shows "find P (map f xs) = map_option f (find P xs)"
  using assms by (induction xs) auto

lemma same_id_same_row:
  assumes "distinct (map user_id session)" and "a \<in> set session" and "b \<in> set session"
    and "user_id a = user_id b"
  shows "a = b"
  using assms by (meson distinct_map inj_onD)

lemma find_in_set: "find P xs = Some a \<Longrightarrow> a \<in> set xs \<and> P a"
  by (induction xs) (auto split: if_splits)

lemma admin_kept_delete:
  assumes "admin_kept aid session"
  shows "admin_kept aid (snd (delete_user uid session current_user))"
proof (cases "email current_user \<noteq> ADMIN_EMAIL")
  case True
  with assms show ?thesis by (simp add: delete_user_def)
next
  case False
  show ?thesis
  proof (cases "find (\<lambda>u. user_id u = uid) session")
    case None
    with False assms show ?thesis by (simp add: delete_user_def)
  next
    case (Some target)
    show ?thesis
    proof (cases "email target = ADMIN_EMAIL")
      case True
      with False Some assms show ?thesis by (simp add: delete_user_def)
    next
      case notadmin: False
      from assms obtain a where a: "find (\<lambda>u. email u = ADMIN_EMAIL) session = Some a"
          and aid: "user_id a = aid" and d: "distinct (map user_id session)"
        by (auto simp add: admin_kept_def get_user_by_email_def split: option.splits)
      from a have ain: "a \<in> set session" and aem: "email a = ADMIN_EMAIL"
        using find_in_set by fastforce+
      from Some have tin: "target \<in> set session"
        using find_in_set by fastforce
      have "user_id a \<noteq> user_id target"
        using same_id_same_row [OF d ain tin] aem notadmin by auto
      then have "find (\<lambda>u. email u = ADMIN_EMAIL)
                   (filter (\<lambda>u. user_id u \<noteq> user_id target) session) = Some a"
        using a by (simp add: find_filter_keeps)
      moreover have "distinct (map user_id (filter (\<lambda>u. user_id u \<noteq> user_id target) session))"
        using d by (simp add: distinct_map_filter)
      ultimately show ?thesis
        using False Some notadmin aid
        by (simp add: delete_user_def session_delete_def admin_kept_def get_user_by_email_def)
    qed
  qed
qed

lemma admin_kept_update:
  assumes "admin_kept aid session"
  shows "admin_kept aid (session_update_password user session)"
proof -
  let ?f = "\<lambda>u. if user_id u = user_id user then u\<lparr>password_hash := password_hash user\<rparr>
                 else u"
  have ids: "map user_id (map ?f session) = map user_id session"
    by (induction session) auto
  from assms obtain a where a: "find (\<lambda>u. email u = ADMIN_EMAIL) session = Some a"
      and aid: "user_id a = aid" and d: "distinct (map user_id session)"
    by (auto simp add: admin_kept_def get_user_by_email_def split: option.splits)
  have d': "distinct (map user_id (map ?f session))"
    unfolding ids by (rule d)
  have "find (\<lambda>u. email u = ADMIN_EMAIL) (map ?f session)
          = map_option ?f (find (\<lambda>u. email u = ADMIN_EMAIL) session)"
    by (rule find_map_keeps) simp
  with a have fa: "find (\<lambda>u. email u = ADMIN_EMAIL) (map ?f session) = Some (?f a)"
    by simp
  have "user_id (?f a) = aid"
    using aid by simp
  with fa d' show ?thesis
    unfolding admin_kept_def session_update_password_def get_user_by_email_def
    by simp
qed

lemma admin_kept_change:
  assumes "admin_kept aid session"
  shows "admin_kept aid (snd (change_password E salt data current_user session))"
  using assms admin_kept_update
  by (auto simp add: change_password_def split: option.splits sum.splits)

lemma admin_kept_create:
  assumes "admin_kept aid session"
  shows "admin_kept aid (snd (create_user E salt new_id now_ms data session current_user))"
proof -
  have ins: "admin_kept aid s'" if "session_insert user session = Inr s'" for user s'
  proof -
    from that have s': "s' = session @ [user]" and fresh: "user_id user \<notin> set (map user_id session)"
      by (auto simp add: session_insert_def split: if_splits)
    from assms obtain a where a: "find (\<lambda>u. email u = ADMIN_EMAIL) session = Some a"
        and aid: "user_id a = aid" and d: "distinct (map user_id session)"
      by (auto simp add: admin_kept_def get_user_by_email_def split: option.splits)
    from a have "find (\<lambda>u. email u = ADMIN_EMAIL) (session @ [user]) = Some a"
      by (rule find_append_keeps)
    with aid d fresh s' show ?thesis
      by (simp add: admin_kept_def get_user_by_email_def)
  qed
  show ?thesis
    using assms ins
    by (auto simp add: create_user_def Let_def split: option.splits sum.splits)
qed

lemma admin_kept_handle:
  assumes "admin_kept aid session"
  shows "admin_kept aid (snd (handle E now req session))"
  using assms admin_kept_delete admin_kept_change admin_kept_create
  by (cases req) (auto split: sum.splits)

lemma admin_kept_run:
  "admin_kept aid session \<Longrightarrow> admin_kept aid (run E reqs session)"
proof (induction reqs arbitrary: session)
  case Nil
  then show ?case by simp
next
  case (Cons r reqs)
  obtain now req where r: "r = (now, req)" by (cases r)
  from Cons.prems have "admin_kept aid (snd (handle E now req session))"
    by (rule admin_kept_handle)
  then show ?case
    using Cons.IH r by simp
qed

lemma delete_admin_refused:
  assumes "distinct (map user_id session)"
    and "get_user_by_email ADMIN_EMAIL session = Some a"
    and "email current_user = ADMIN_EMAIL"
  shows "delete_user (user_id a) session current_user
           = (Inl (HTTPException 400 ''Cannot delete admin user'' []), session)"
proof -
  from assms(2) have ain: "a \<in> set session" and aem: "email a = ADMIN_EMAIL"
    using find_in_set by (fastforce simp add: get_user_by_email_def)+
  then obtain target where t: "find (\<lambda>u. user_id u = user_id a) session = Some target"
    by (cases "find (\<lambda>u. user_id u = user_id a) session") (auto simp add: find_None_iff)
  then have "target \<in> set session" and "user_id target = user_id a"
    using find_in_set by fastforce+
  with assms(1) ain have "target = a"
    using same_id_same_row by metis
  with t aem assms(3) show ?thesis
    by (simp add: delete_user_def)
qed

text \<open>
  Claim C1. The table has a primary key, so its ids are distinct. Given that and a row
  with the email \<open>admin@test.com\<close>, after any sequence of requests (any tokens, bodies,
  salts, fresh ids and clock readings) a row with that email is still there, and it
  carries the same id. In particular \<open>delete_user\<close> run by the administrator on the id of
  that row raises the 400 "Cannot delete admin user" and returns the table as it was,
  and so does the request once the token has resolved to the administrator.
\<close>

theorem admin_never_deleted:
  assumes "distinct (map user_id session)"
    and "get_user_by_email ADMIN_EMAIL session = Some a"
  shows "(\<exists>a'. get_user_by_email ADMIN_EMAIL (run E reqs session) = Some a'
              \<and> user_id a' = user_id a)
       \<and> (email current_user = ADMIN_EMAIL \<longrightarrow>
            delete_user (user_id a) session current_user
              = (Inl (HTTPException 400 ''Cannot delete admin user'' []), session))
       \<and> (get_current_user_obj E now token session = Inr current_user
            \<and> email current_user = ADMIN_EMAIL \<longrightarrow>
            handle E now (DeleteUser token (user_id a)) session
              = (Inl (HTTPException 400 ''Cannot delete admin user'' []), session))"
proof (intro conjI impI)
  from assms have "admin_kept (user_id a) session"
    by (simp add: admin_kept_def)
  then have "admin_kept (user_id a) (run E reqs session)"
    by (rule admin_kept_run)
  then show "\<exists>a'. get_user_by_email ADMIN_EMAIL (run E reqs session) = Some a'
              \<and> user_id a' = user_id a"
    by (auto simp add: admin_kept_def split: option.splits)
next
  assume "email current_user = ADMIN_EMAIL"
  with assms show "delete_user (user_id a) session current_user
              = (Inl (HTTPException 400 ''Cannot delete admin user'' []), session)"
    by (rule delete_admin_refused)
next
  assume "get_current_user_obj E now token session = Inr current_user
            \<and> email current_user = ADMIN_EMAIL"
  with assms show "handle E now (DeleteUser token (user_id a)) session
              = (Inl (HTTPException 400 ''Cannot delete admin user'' []), session)"
    by (simp add: delete_admin_refused)
qed

lemma two_users_distinct: "distinct (map user_id two_users)"
  by (simp add: two_users_def admin_user_def bob_def str_def)

lemma lookup_admin_two: "get_user_by_email ADMIN_EMAIL two_users = Some admin_user"
  by (simp add: get_user_by_email_def two_users_def admin_user_def)

lemma admin_token_resolves:
  "get_current_user_obj symbolic t admin_token (admin_user # rest)
     = (if 2800 < t then Inl credentials_exception else Inr admin_user)"
  by (simp add: get_current_user_obj_def admin_token_def symbolic_def get_user_by_email_def
        admin_user_def)

lemma admin_requests_run: "run symbolic admin_requests two_users = [admin_user]"
proof -
  have ids: "user_id admin_user = str ''id-admin''" "user_id bob = str ''id-bob''"
      "str ''id-admin'' \<noteq> str ''id-bob''" "email bob \<noteq> ADMIN_EMAIL"
      "email admin_user = ADMIN_EMAIL"
    by (simp_all add: admin_user_def bob_def str_def ADMIN_EMAIL_def)
  have 1: "snd (handle symbolic 1000 (DeleteUser admin_token (str ''id-admin'')) two_users)
             = two_users"
    using ids by (simp add: admin_token_resolves two_users_def delete_user_def)
  have 2: "snd (handle symbolic 1001 (DeleteUser admin_token (str ''id-bob'')) two_users)
             = [admin_user]"
    using ids
    by (simp add: admin_token_resolves two_users_def delete_user_def session_delete_def)
  have 3: "snd (handle symbolic 1003 (DeleteUser admin_token (str ''id-admin'')) [admin_user])
             = [admin_user]"
    using ids by (simp add: admin_token_resolves delete_user_def)
  have 4: "snd (handle symbolic 1002 Logout [admin_user]) = [admin_user]"
    by simp
  show ?thesis
    by (simp only: admin_requests_def run.simps 1 2 3 4)
qed

theorem admin_never_deleted_witness:
  "distinct (map user_id two_users)
   \<and> get_user_by_email ADMIN_EMAIL two_users = Some admin_user
   \<and> run symbolic admin_requests two_users = [admin_user]
   \<and> get_user_by_email ADMIN_EMAIL (run symbolic admin_requests two_users) = Some admin_user
   \<and> email admin_user = ADMIN_EMAIL
   \<and> delete_user (user_id admin_user) two_users admin_user
       = (Inl (HTTPException 400 ''Cannot delete admin user'' []) :: error + token response,
          two_users)
   \<and> get_current_user_obj symbolic 1000 admin_token two_users = Inr admin_user
   \<and> handle symbolic 1000 (DeleteUser admin_token (user_id admin_user)) two_users
       = (Inl (HTTPException 400 ''Cannot delete admin user'' []), two_users)"
proof -
  note w = admin_never_deleted [OF two_users_distinct lookup_admin_two,
      where E = symbolic and reqs = admin_requests and current_user = admin_user
      and now = 1000 and token = admin_token]
  have r: "get_current_user_obj symbolic 1000 admin_token two_users = Inr admin_user"
    by (simp add: admin_token_resolves two_users_def)
  have k: "get_user_by_email ADMIN_EMAIL (run symbolic admin_requests two_users)
                  = Some admin_user"
    by (simp add: admin_requests_run get_user_by_email_def admin_user_is_admin)
  from w admin_user_is_admin
  have d: "delete_user (user_id admin_user) two_users admin_user
       = (Inl (HTTPException 400 ''Cannot delete admin user'' []) :: error + token response,
          two_users)"
    by blast
  from w r admin_user_is_admin
  have h: "handle symbolic 1000 (DeleteUser admin_token (user_id admin_user)) two_users
       = (Inl (HTTPException 400 ''Cannot delete admin user'' []), two_users)"
    by blast
  show ?thesis
    using two_users_distinct lookup_admin_two admin_requests_run k admin_user_is_admin d r h
    by blast
qed

section \<open>Hashing and verifying a password\<close>

lemma encode_utf8_char_length: "1 \<le> length (encode_utf8_char c)"
  by (simp add: encode_utf8_char_def)

lemma utf8_bytes_Cons: "utf8_bytes (c # s) = encode_utf8_char c @ utf8_bytes s"
  by (simp add: utf8_bytes_def)

lemma utf8_bytes_append: "utf8_bytes (s @ r) = utf8_bytes s @ utf8_bytes r"
  by (simp add: utf8_bytes_def)

lemma utf8_bytes_replicate_length:
  "length (utf8_bytes (replicate n c)) = n * length (encode_utf8_char c)"
  by (induction n) (simp_all add: utf8_bytes_def)

lemma utf8_bytes_length: "length s \<le> length (utf8_bytes s)"
proof (induction s)
  case Nil
  then show ?case by (simp add: utf8_bytes_def)
next
  case (Cons c s)
  then show ?case
    using encode_utf8_char_length [of c] by (simp add: utf8_bytes_Cons)
qed

lemma take_eq_self_iff: "(p = take n p) = (length p \<le> n)"
proof
  assume "p = take n p"
  then have "length p = length (take n p)" by simp
  then show "length p \<le> n" by simp
qed simp

lemma hasher_exact_inj:
  assumes "hasher_exact E"
  shows "(pwd_context_hash E salt p = pwd_context_hash E salt q) = (p = q)"
proof
  assume "pwd_context_hash E salt p = pwd_context_hash E salt q"
  then have "pwd_context_verify E p (pwd_context_hash E salt q)
               = pwd_context_verify E p (pwd_context_hash E salt p)"
    by simp
  with assms show "p = q"
    by (simp add: hasher_exact_def)
qed simp

lemma set_password_hash:
  assumes "set_password E salt u p = Inr u'"
  shows "password_hash u'
     = Some (pwd_context_hash E salt (if 72 < length (utf8_bytes p) then take 72 p else p))"
  using assms by (simp add: set_password_Inr_iff)

lemma verify_after_set:
  assumes "hasher_exact E" and "set_password E salt u p = Inr u'"
  shows "verify_password E u' q
           = (q = (if 72 < length (utf8_bytes p) then take 72 p else p))"
  using assms(1) set_password_hash [OF assms(2)]
  by (simp add: verify_password_def hasher_exact_def)

text \<open>
  Claim C4, on the code. \<open>set_password\<close> raises on a password with a lone surrogate and
  returns the user with a hash on every other. It cuts a password that encodes to more
  than 72 bytes down to its first 72 characters before hashing it; \<open>verify_password\<close>
  hands the whole password to the library. With a hasher that accepts exactly the
  password hashed, a password verifies against its own hash exactly when \<open>set_password\<close>
  did not shorten it: a password of more than 72 characters never does. Two different
  passwords of at most 72 bytes never verify against each other's hash.
\<close>

theorem password_round_trip_iff:
  assumes "hasher_exact E"
  shows "((\<exists>v. set_password E salt u p = Inr v) = (\<not> list_ex surrogate p))
       \<and> (set_password E salt u p = Inr u' \<longrightarrow>
            verify_password E u' p = (length (utf8_bytes p) \<le> 72 \<or> length p \<le> 72))
       \<and> (set_password E salt u p = Inr u' \<and> length (utf8_bytes p) \<le> 72
            \<and> \<not> list_ex surrogate q \<and> length (utf8_bytes q) \<le> 72 \<and> p \<noteq> q \<longrightarrow>
            \<not> verify_password E u' q)
       \<and> (set_password E salt u p = Inr u' \<and> 72 < length p \<longrightarrow>
            \<not> verify_password E u' p)"
proof (intro conjI impI)
  show "(\<exists>v. set_password E salt u p = Inr v) = (\<not> list_ex surrogate p)"
    by (simp add: set_password_Inr_iff)
next
  assume sp: "set_password E salt u p = Inr u'"
  show "verify_password E u' p = (length (utf8_bytes p) \<le> 72 \<or> length p \<le> 72)"
    by (simp add: verify_after_set [OF assms sp] take_eq_self_iff)
next
  assume "set_password E salt u p = Inr u' \<and> length (utf8_bytes p) \<le> 72
            \<and> \<not> list_ex surrogate q \<and> length (utf8_bytes q) \<le> 72 \<and> p \<noteq> q"
  then show "\<not> verify_password E u' q"
    using verify_after_set [OF assms, of salt u p u' q] by auto
next
  assume a: "set_password E salt u p = Inr u' \<and> 72 < length p"
  then have "72 < length (utf8_bytes p)"
    using utf8_bytes_length [of p] by simp
  with a show "\<not> verify_password E u' p"
    using verify_after_set [OF assms, of salt u p u' p] by (simp add: take_eq_self_iff)
qed

lemma seventy_three_a_set:
  "72 < length seventy_three_a
   \<and> set_password symbolic (str ''s'') bob seventy_three_a
       = Inr (bob\<lparr>password_hash := Some (Crypt (str ''s'') (replicate 72 97))\<rparr>)"
proof -
  have "\<not> list_ex surrogate seventy_three_a"
    by (simp add: seventy_three_a_def list_ex_iff surrogate_def)
  moreover have "72 < length (utf8_bytes seventy_three_a)"
    by (simp add: seventy_three_a_def utf8_bytes_replicate_length encode_utf8_char_def)
  moreover have "take 72 seventy_three_a = replicate 72 97"
    by (simp add: seventy_three_a_def)
  ultimately show ?thesis
    by (simp add: set_password_encodable symbolic_def seventy_three_a_def)
qed

lemma short_passwords:
  "length (utf8_bytes (str ''hunter2'')) \<le> 72 \<and> length (utf8_bytes (str ''hunter3'')) \<le> 72
   \<and> \<not> list_ex surrogate (str ''hunter3'') \<and> str ''hunter2'' \<noteq> str ''hunter3''"
  by (simp add: str_def utf8_bytes_def encode_utf8_char_def surrogate_def)

lemma hunter2_set:
  "set_password symbolic (str ''s'') bob (str ''hunter2'')
     = Inr (bob\<lparr>password_hash := Some (Crypt (str ''s'') (str ''hunter2''))\<rparr>)"
proof -
  have "\<not> list_ex surrogate (str ''hunter2'')"
    by (simp add: str_def surrogate_def)
  then show ?thesis
    using short_passwords by (simp add: set_password_encodable symbolic_def)
qed

theorem password_round_trip_iff_witness:
  "hasher_exact symbolic
   \<and> 72 < length seventy_three_a
   \<and> set_password symbolic (str ''s'') bob seventy_three_a
       = Inr (bob\<lparr>password_hash := Some (Crypt (str ''s'') (replicate 72 97))\<rparr>)
   \<and> \<not> verify_password symbolic
         (bob\<lparr>password_hash := Some (Crypt (str ''s'') (replicate 72 97))\<rparr>) seventy_three_a
   \<and> set_password symbolic (str ''s'') bob (str ''hunter2'')
       = Inr (bob\<lparr>password_hash := Some (Crypt (str ''s'') (str ''hunter2''))\<rparr>)
   \<and> length (utf8_bytes (str ''hunter2'')) \<le> 72
   \<and> verify_password symbolic
        (bob\<lparr>password_hash := Some (Crypt (str ''s'') (str ''hunter2''))\<rparr>) (str ''hunter2'')
   \<and> \<not> list_ex surrogate (str ''hunter3'')
   \<and> length (utf8_bytes (str ''hunter3'')) \<le> 72
   \<and> str ''hunter2'' \<noteq> str ''hunter3''
   \<and> \<not> verify_password symbolic
         (bob\<lparr>password_hash := Some (Crypt (str ''s'') (str ''hunter2''))\<rparr>) (str ''hunter3'')"
proof -
  note w = password_round_trip_iff [OF hasher_exact_symbolic, where salt = "str ''s''"
      and u = bob]
  from w [where p = seventy_three_a
      and u' = "bob\<lparr>password_hash := Some (Crypt (str ''s'') (replicate 72 97))\<rparr>"]
    seventy_three_a_set
  have a: "\<not> verify_password symbolic
         (bob\<lparr>password_hash := Some (Crypt (str ''s'') (replicate 72 97))\<rparr>) seventy_three_a"
    by blast
  from w [where p = "str ''hunter2''" and q = "str ''hunter3''"
      and u' = "bob\<lparr>password_hash := Some (Crypt (str ''s'') (str ''hunter2''))\<rparr>"]
    short_passwords hunter2_set
  have b: "verify_password symbolic
        (bob\<lparr>password_hash := Some (Crypt (str ''s'') (str ''hunter2''))\<rparr>) (str ''hunter2'')
      \<and> \<not> verify_password symbolic
         (bob\<lparr>password_hash := Some (Crypt (str ''s'') (str ''hunter2''))\<rparr>) (str ''hunter3'')"
    by blast
  show ?thesis
    using a b hasher_exact_symbolic seventy_three_a_set short_passwords hunter2_set by blast
qed

text \<open>
  Claim C5, on the code. When the encoding exceeds 72 bytes the password hashed is
  \<open>password[:72]\<close>, the first 72 characters, not the first 72 bytes. So two different
  passwords of at most 72 characters get different hashes and do not verify against each
  other, however many bytes they share; and two passwords of more than 72 characters
  that share the first 72 get the same hash under the same salt, against which neither
  of them verifies, \<open>verify_password\<close> not shortening what it is given.
\<close>

theorem truncation_counts_characters:
  assumes "hasher_exact E"
  shows "(set_password E salt u p = Inr up \<and> 72 < length (utf8_bytes p) \<longrightarrow>
            password_hash up = Some (pwd_context_hash E salt (take 72 p)))
       \<and> (set_password E salt u p = Inr up \<and> set_password E salt u q = Inr uq
            \<and> length p \<le> 72 \<and> length q \<le> 72 \<and> p \<noteq> q \<longrightarrow>
            password_hash up \<noteq> password_hash uq \<and> \<not> verify_password E up q)
       \<and> (set_password E salt u p = Inr up \<and> set_password E salt u q = Inr uq
            \<and> 72 < length p \<and> 72 < length q \<and> take 72 p = take 72 q \<longrightarrow>
            password_hash up = password_hash uq
            \<and> \<not> verify_password E up p \<and> \<not> verify_password E uq p)"
proof (intro conjI impI)
  assume "set_password E salt u p = Inr up \<and> 72 < length (utf8_bytes p)"
  then show "password_hash up = Some (pwd_context_hash E salt (take 72 p))"
    using set_password_hash [of E salt u p up] by simp
next
  assume a: "set_password E salt u p = Inr up \<and> set_password E salt u q = Inr uq
            \<and> length p \<le> 72 \<and> length q \<le> 72 \<and> p \<noteq> q"
  then have sp: "set_password E salt u p = Inr up" and sq: "set_password E salt u q = Inr uq"
    by simp_all
  from a show "password_hash up \<noteq> password_hash uq"
    by (simp add: set_password_hash [OF sp] set_password_hash [OF sq]
          hasher_exact_inj [OF assms])
  from a show "\<not> verify_password E up q"
    by (auto simp add: verify_after_set [OF assms sp])
next
  assume a: "set_password E salt u p = Inr up \<and> set_password E salt u q = Inr uq
            \<and> 72 < length p \<and> 72 < length q \<and> take 72 p = take 72 q"
  then have sp: "set_password E salt u p = Inr up" and sq: "set_password E salt u q = Inr uq"
    by simp_all
  from a have b: "72 < length (utf8_bytes p)" "72 < length (utf8_bytes q)"
    using utf8_bytes_length [of p] utf8_bytes_length [of q] by simp_all
  with a show "password_hash up = password_hash uq"
    by (simp add: set_password_hash [OF sp] set_password_hash [OF sq])
  from a have "72 < length p"
    by simp
  then have n: "p \<noteq> take 72 p"
    by (simp add: take_eq_self_iff)
  with b show "\<not> verify_password E up p"
    by (simp add: verify_after_set [OF assms sp])
  from a n have "p \<noteq> take 72 q"
    by metis
  with b show "\<not> verify_password E uq p"
    by (simp add: verify_after_set [OF assms sq])
qed

lemma accented_bytes:
  "length (utf8_bytes accented_a) = 73 \<and> length (utf8_bytes accented_b) = 73
   \<and> take 72 (utf8_bytes accented_a) = take 72 (utf8_bytes accented_b)"
proof -
  have n: "length (utf8_bytes (replicate 36 233)) = 72"
    by (simp add: utf8_bytes_replicate_length encode_utf8_char_def)
  have one: "utf8_bytes [97] = [97]" "utf8_bytes [98] = [98]"
    by (simp_all add: utf8_bytes_def encode_utf8_char_def)
  show ?thesis
    using n by (simp add: accented_a_def accented_b_def utf8_bytes_append one)
qed

lemma accented_chars:
  "length accented_a \<le> 72 \<and> length accented_b \<le> 72 \<and> accented_a \<noteq> accented_b"
  by (simp add: accented_a_def accented_b_def)

lemma accented_set:
  "set_password symbolic (str ''s'') bob accented_a
     = Inr (bob\<lparr>password_hash := Some (Crypt (str ''s'') accented_a)\<rparr>)
   \<and> set_password symbolic (str ''s'') bob accented_b
     = Inr (bob\<lparr>password_hash := Some (Crypt (str ''s'') accented_b)\<rparr>)"
proof -
  have "\<not> list_ex surrogate accented_a" and "\<not> list_ex surrogate accented_b"
    by (simp_all add: accented_a_def accented_b_def list_ex_iff surrogate_def)
  moreover have "take 72 accented_a = accented_a" and "take 72 accented_b = accented_b"
    by (simp_all add: accented_a_def accented_b_def)
  ultimately show ?thesis
    by (simp add: set_password_encodable symbolic_def)
qed

lemma long_ascii_chars:
  "72 < length long_ascii_b \<and> 72 < length long_ascii_c
   \<and> take 72 long_ascii_b = take 72 long_ascii_c"
  by (simp add: long_ascii_b_def long_ascii_c_def)

lemma long_ascii_set:
  "set_password symbolic (str ''s'') bob long_ascii_b
     = Inr (bob\<lparr>password_hash := Some (Crypt (str ''s'') (replicate 72 97))\<rparr>)
   \<and> set_password symbolic (str ''s'') bob long_ascii_c
     = Inr (bob\<lparr>password_hash := Some (Crypt (str ''s'') (replicate 72 97))\<rparr>)"
proof -
  have "\<not> list_ex surrogate long_ascii_b" and "\<not> list_ex surrogate long_ascii_c"
    by (simp_all add: long_ascii_b_def long_ascii_c_def list_ex_iff surrogate_def)
  moreover have "72 < length (utf8_bytes long_ascii_b)"
      and "72 < length (utf8_bytes long_ascii_c)"
    using utf8_bytes_length [of long_ascii_b] utf8_bytes_length [of long_ascii_c]
      long_ascii_chars by simp_all
  moreover have "take 72 long_ascii_b = replicate 72 97"
      and "take 72 long_ascii_c = replicate 72 97"
    by (simp_all add: long_ascii_b_def long_ascii_c_def)
  ultimately show ?thesis
    by (simp add: set_password_encodable symbolic_def)
qed

theorem truncation_counts_characters_witness:
  "hasher_exact symbolic
   \<and> length (utf8_bytes accented_a) = 73 \<and> length (utf8_bytes accented_b) = 73
   \<and> take 72 (utf8_bytes accented_a) = take 72 (utf8_bytes accented_b)
   \<and> length accented_a \<le> 72 \<and> length accented_b \<le> 72 \<and> accented_a \<noteq> accented_b
   \<and> set_password symbolic (str ''s'') bob accented_a
       = Inr (bob\<lparr>password_hash := Some (Crypt (str ''s'') accented_a)\<rparr>)
   \<and> set_password symbolic (str ''s'') bob accented_b
       = Inr (bob\<lparr>password_hash := Some (Crypt (str ''s'') accented_b)\<rparr>)
   \<and> password_hash (bob\<lparr>password_hash := Some (Crypt (str ''s'') accented_a)\<rparr>)
       \<noteq> password_hash (bob\<lparr>password_hash := Some (Crypt (str ''s'') accented_b)\<rparr>)
   \<and> \<not> verify_password symbolic
         (bob\<lparr>password_hash := Some (Crypt (str ''s'') accented_a)\<rparr>) accented_b
   \<and> 72 < length long_ascii_b \<and> 72 < length long_ascii_c
   \<and> take 72 long_ascii_b = take 72 long_ascii_c
   \<and> set_password symbolic (str ''s'') bob long_ascii_b
       = Inr (bob\<lparr>password_hash := Some (Crypt (str ''s'') (replicate 72 97))\<rparr>)
   \<and> set_password symbolic (str ''s'') bob long_ascii_c
       = Inr (bob\<lparr>password_hash := Some (Crypt (str ''s'') (replicate 72 97))\<rparr>)
   \<and> \<not> verify_password symbolic
         (bob\<lparr>password_hash := Some (Crypt (str ''s'') (replicate 72 97))\<rparr>) long_ascii_b
   \<and> \<not> verify_password symbolic
         (bob\<lparr>password_hash := Some (Crypt (str ''s'') (replicate 72 97))\<rparr>) long_ascii_c"
proof -
  note w = truncation_counts_characters [OF hasher_exact_symbolic, where salt = "str ''s''"
      and u = bob]
  from w [where p = accented_a and q = accented_b
      and up = "bob\<lparr>password_hash := Some (Crypt (str ''s'') accented_a)\<rparr>"
      and uq = "bob\<lparr>password_hash := Some (Crypt (str ''s'') accented_b)\<rparr>"]
    accented_chars accented_set
  have a: "password_hash (bob\<lparr>password_hash := Some (Crypt (str ''s'') accented_a)\<rparr>)
       \<noteq> password_hash (bob\<lparr>password_hash := Some (Crypt (str ''s'') accented_b)\<rparr>)
     \<and> \<not> verify_password symbolic
         (bob\<lparr>password_hash := Some (Crypt (str ''s'') accented_a)\<rparr>) accented_b"
    by blast
  from w [where p = long_ascii_b and q = long_ascii_c
      and up = "bob\<lparr>password_hash := Some (Crypt (str ''s'') (replicate 72 97))\<rparr>"
      and uq = "bob\<lparr>password_hash := Some (Crypt (str ''s'') (replicate 72 97))\<rparr>"]
    long_ascii_chars long_ascii_set
  have b: "\<not> verify_password symbolic
         (bob\<lparr>password_hash := Some (Crypt (str ''s'') (replicate 72 97))\<rparr>) long_ascii_b"
    by blast
  from w [where p = long_ascii_c and q = long_ascii_b
      and up = "bob\<lparr>password_hash := Some (Crypt (str ''s'') (replicate 72 97))\<rparr>"
      and uq = "bob\<lparr>password_hash := Some (Crypt (str ''s'') (replicate 72 97))\<rparr>"]
    long_ascii_chars long_ascii_set
  have c: "\<not> verify_password symbolic
         (bob\<lparr>password_hash := Some (Crypt (str ''s'') (replicate 72 97))\<rparr>) long_ascii_c"
    by metis
  show ?thesis
    using a b c hasher_exact_symbolic accented_bytes accented_chars accented_set
      long_ascii_chars long_ascii_set
    by blast
qed

section \<open>The constraints of the table\<close>

text \<open>
  The requests keep the two constraints of the schema: \<open>delete_user\<close> removes rows,
  \<open>change_password\<close> writes one column that is neither, and \<open>create_user\<close> inserts only
  after the lookup of the email, with an id the insert itself checks.
\<close>

lemma table_ok_delete: "table_ok session \<Longrightarrow> table_ok (session_delete user session)"
  by (simp add: table_ok_def session_delete_def distinct_map_filter)

lemma table_ok_update:
  assumes "table_ok session"
  shows "table_ok (session_update_password user session)"
proof -
  let ?f = "\<lambda>u. if user_id u = user_id user then u\<lparr>password_hash := password_hash user\<rparr>
                 else u"
  have "map user_id (map ?f session) = map user_id session"
      and "map email (map ?f session) = map email session"
    by (induction session) auto
  with assms show ?thesis
    unfolding table_ok_def session_update_password_def by metis
qed

lemma table_ok_insert:
  "table_ok session \<Longrightarrow> session_insert user session = Inr session' \<Longrightarrow> table_ok session'"
  by (auto simp add: table_ok_def session_insert_def split: if_splits)

lemma table_ok_handle:
  assumes "table_ok session"
  shows "table_ok (snd (handle E now req session))"
proof (cases req)
  case (ChangePassword token data salt)
  with assms table_ok_update show ?thesis
    by (auto simp add: change_password_def split: sum.splits option.splits)
next
  case (CreateUser token data salt new_id now_ms)
  with assms table_ok_insert show ?thesis
    by (auto simp add: create_user_def Let_def split: sum.splits option.splits)
next
  case (DeleteUser token uid)
  with assms table_ok_delete show ?thesis
    by (auto simp add: delete_user_def split: sum.splits option.splits)
qed (use assms in \<open>auto split: sum.splits\<close>)

lemma table_ok_run: "table_ok session \<Longrightarrow> table_ok (run E reqs session)"
proof (induction reqs arbitrary: session)
  case Nil
  then show ?case by simp
next
  case (Cons r reqs)
  obtain now req where "r = (now, req)" by (cases r)
  with Cons show ?case
    by (simp add: table_ok_handle)
qed

end
